theory Spec2Isabelle
  imports Main
begin

section \<open>Strings\<close>

text \<open>
  A Python string is a list of characters. The characters of the model are the code
  points below 256, and \<open>lower_char\<close> is what \<^verbatim>\<open>str.lower\<close> does to one of
  them: the letters A to Z and the capital letters of the Latin-1 block (192 to 222,
  the multiplication sign 215 apart) move up by 32, every other character stays.
\<close>

definition lower_char :: "char \<Rightarrow> char" where
  "lower_char c =
     (let n = (of_char c :: nat) in
      if 65 \<le> n \<and> n \<le> 90 then char_of (n + 32)
      else if 192 \<le> n \<and> n \<le> 214 then char_of (n + 32)
      else if 216 \<le> n \<and> n \<le> 222 then char_of (n + 32)
      else c)"

definition lower :: "string \<Rightarrow> string" where
  "lower s = map lower_char s"

text \<open>
  \<^verbatim>\<open>s.startswith(p)\<close> compares the first \<open>len(p)\<close> characters of \<open>s\<close> with
  \<open>p\<close>; a \<open>p\<close> longer than \<open>s\<close> never matches, since \<open>take\<close> then returns the
  shorter \<open>s\<close>.
\<close>

definition startswith :: "string \<Rightarrow> string \<Rightarrow> bool" where
  "startswith s p = (take (length p) s = p)"

section \<open>The HTTP client\<close>

text \<open>
  The commands talk to the remote service through the \<^verbatim>\<open>requests\<close> library. A call
  of \<^verbatim>\<open>requests.get\<close>, \<^verbatim>\<open>post\<close>, \<^verbatim>\<open>put\<close> or \<^verbatim>\<open>delete\<close> builds a request from its
  arguments (\<open>headers\<close> and \<open>data\<close> are empty unless the call passes them) and hands
  it to the service, which answers with a response or fails at the transport level.
  Of a response the commands read the status code, the body text and the decoded
  JSON body; \<open>json\<close> is \<open>None\<close> when the body does not decode, where
  \<^verbatim>\<open>response.json()\<close> raises \<^verbatim>\<open>ValueError\<close>.
\<close>

datatype http_verb = GET | POST | PUT | DELETE

record request =
  verb :: http_verb
  url :: string
  headers :: "(string \<times> string) list"
  data :: "string option"

record 'j response =
  status_code :: int
  body_text :: string
  json :: "'j option"

datatype error = RequestException | ValueError

type_synonym 'j http = "request \<Rightarrow> error + 'j response"

definition requests_get :: "string \<Rightarrow> request" where
  "requests_get u = \<lparr>verb = GET, url = u, headers = [], data = None\<rparr>"

definition requests_post :: "string \<Rightarrow> request" where
  "requests_post u = \<lparr>verb = POST, url = u, headers = [], data = None\<rparr>"

definition requests_delete :: "string \<Rightarrow> request" where
  "requests_delete u = \<lparr>verb = DELETE, url = u, headers = [], data = None\<rparr>"

definition requests_put :: "string \<Rightarrow> string option \<Rightarrow> (string \<times> string) list \<Rightarrow> request" where
  "requests_put u d hs = \<lparr>verb = PUT, url = u, headers = hs, data = d\<rparr>"

text \<open>
  \<^verbatim>\<open>self.cli.path(template, **kwargs)\<close> belongs to the command framework, which is not
  part of the three command files. Every definition below takes it as the parameter
  \<open>path\<close>: a function from the template and the keyword arguments, in the order the
  call writes them, to the URL.
\<close>

type_synonym path = "string \<Rightarrow> (string \<times> string) list \<Rightarrow> string"

section \<open>Resources: completion of names\<close>

text \<open>
  A collection endpoint answers with a JSON array of names, so the decoded body of a
  resource's response is a \<open>string list\<close>. The five resource classes fetch from five
  different URLs and then run the same two loops, which are embedded once:
  \<open>suggest_loop\<close> returns at the first match, \<open>complete_loop\<close> yields every match.
  \<open>complete\<close> is a generator; its result here is the list of the values it yields
  when it is run to its end, or the exception the fetch raises. The \<open>None\<close> that
  \<open>suggest\<close> returns is \<open>Inr None\<close>.
\<close>

definition response_json :: "'j response \<Rightarrow> error + 'j" where
  "response_json response = (case json response of None \<Rightarrow> Inl ValueError | Some j \<Rightarrow> Inr j)"

definition get_names :: "string list http \<Rightarrow> string \<Rightarrow> error + string list" where
  "get_names http u =
     (case http (requests_get u) of
        Inl e \<Rightarrow> Inl e
      | Inr response \<Rightarrow>
          if status_code response = 200 then response_json response else Inr [])"

fun suggest_loop :: "string \<Rightarrow> string list \<Rightarrow> string option" where
  "suggest_loop prefix [] = None"
| "suggest_loop prefix (lock # locks) =
     (if startswith (lower lock) (lower prefix) then Some (drop (length prefix) lock)
      else suggest_loop prefix locks)"

fun complete_loop :: "string \<Rightarrow> string list \<Rightarrow> string list" where
  "complete_loop prefix [] = []"
| "complete_loop prefix (lock # locks) =
     (if startswith (lower lock) (lower prefix) then lock # complete_loop prefix locks
      else complete_loop prefix locks)"

definition suggest_from :: "error + string list \<Rightarrow> string \<Rightarrow> error + string option" where
  "suggest_from names prefix =
     (case names of Inl e \<Rightarrow> Inl e | Inr locks \<Rightarrow> Inr (suggest_loop prefix locks))"

definition complete_from :: "error + string list \<Rightarrow> string \<Rightarrow> error + string list" where
  "complete_from names prefix =
     (case names of Inl e \<Rightarrow> Inl e | Inr locks \<Rightarrow> Inr (complete_loop prefix locks))"

subsection \<open>lock.py\<close>

definition LockResource_get_lock_names :: "path \<Rightarrow> string list http \<Rightarrow> error + string list" where
  "LockResource_get_lock_names path http = get_names http (path ''/v1/primitives/locks'' [])"

definition LockResource_suggest :: "path \<Rightarrow> string list http \<Rightarrow> string \<Rightarrow> error + string option" where
  "LockResource_suggest path http prefix =
     suggest_from (LockResource_get_lock_names path http) prefix"

definition LockResource_complete :: "path \<Rightarrow> string list http \<Rightarrow> string \<Rightarrow> error + string list" where
  "LockResource_complete path http prefix =
     complete_from (LockResource_get_lock_names path http) prefix"

subsection \<open>election.py\<close>

definition ElectionResource_get_election_names :: "path \<Rightarrow> string list http \<Rightarrow> error + string list" where
  "ElectionResource_get_election_names path http =
     get_names http (path ''/v1/primitives/elections'' [])"

definition ElectionResource_suggest :: "path \<Rightarrow> string list http \<Rightarrow> string \<Rightarrow> error + string option" where
  "ElectionResource_suggest path http prefix =
     suggest_from (ElectionResource_get_election_names path http) prefix"

definition ElectionResource_complete :: "path \<Rightarrow> string list http \<Rightarrow> string \<Rightarrow> error + string list" where
  "ElectionResource_complete path http prefix =
     complete_from (ElectionResource_get_election_names path http) prefix"

definition CandidateResource_get_candidates ::
    "path \<Rightarrow> string list http \<Rightarrow> string \<Rightarrow> error + string list" where
  "CandidateResource_get_candidates path http name =
     get_names http (path ''/v1/primitives/elections/{name}'' [(''name'', name)])"

definition CandidateResource_suggest ::
    "path \<Rightarrow> string list http \<Rightarrow> string \<Rightarrow> string \<Rightarrow> error + string option" where
  "CandidateResource_suggest path http name prefix =
     suggest_from (CandidateResource_get_candidates path http name) prefix"

definition CandidateResource_complete ::
    "path \<Rightarrow> string list http \<Rightarrow> string \<Rightarrow> string \<Rightarrow> error + string list" where
  "CandidateResource_complete path http name prefix =
     complete_from (CandidateResource_get_candidates path http name) prefix"

subsection \<open>map.py\<close>

definition MapResource_get_map_names :: "path \<Rightarrow> string list http \<Rightarrow> error + string list" where
  "MapResource_get_map_names path http = get_names http (path ''/v1/primitives/maps'' [])"

definition MapResource_suggest :: "path \<Rightarrow> string list http \<Rightarrow> string \<Rightarrow> error + string option" where
  "MapResource_suggest path http prefix =
     suggest_from (MapResource_get_map_names path http) prefix"

definition MapResource_complete :: "path \<Rightarrow> string list http \<Rightarrow> string \<Rightarrow> error + string list" where
  "MapResource_complete path http prefix =
     complete_from (MapResource_get_map_names path http) prefix"

definition KeyResource_get_map_keys ::
    "path \<Rightarrow> string list http \<Rightarrow> string \<Rightarrow> error + string list" where
  "KeyResource_get_map_keys path http name =
     get_names http (path ''/v1/primitives/maps/{name}/keys'' [(''name'', name)])"

definition KeyResource_suggest ::
    "path \<Rightarrow> string list http \<Rightarrow> string \<Rightarrow> string \<Rightarrow> error + string option" where
  "KeyResource_suggest path http name prefix =
     suggest_from (KeyResource_get_map_keys path http name) prefix"

definition KeyResource_complete ::
    "path \<Rightarrow> string list http \<Rightarrow> string \<Rightarrow> string \<Rightarrow> error + string list" where
  "KeyResource_complete path http name prefix =
     complete_from (KeyResource_get_map_keys path http name) prefix"

section \<open>Actions: one request, one line of output\<close>

text \<open>
  An action sends one request and prints to standard output. What it does is recorded
  as the list of its effects, in order, together with the exception that ended it, if
  any: the request sent, a call of \<^verbatim>\<open>response.json()\<close>, the decoded body printed,
  a fixed line printed. The decoded body is of any type \<open>'j\<close>.
\<close>

datatype 'j effect = Http request | Json_parse | Print_json 'j | Print_line string

type_synonym 'j run = "'j effect list \<times> error option"

fun is_Http :: "'j effect \<Rightarrow> bool" where
  "is_Http (Http req) = True"
| "is_Http e = False"

fun is_Print :: "'j effect \<Rightarrow> bool" where
  "is_Print (Print_json j) = True"
| "is_Print (Print_line s) = True"
| "is_Print e = False"

definition stdout :: "'j run \<Rightarrow> 'j effect list" where
  "stdout r = filter is_Print (fst r)"

definition send :: "'j http \<Rightarrow> request \<Rightarrow> ('j response \<Rightarrow> 'j run) \<Rightarrow> 'j run" where
  "send http req handle =
     (case http req of
        Inl e \<Rightarrow> ([Http req], Some e)
      | Inr response \<Rightarrow> (Http req # fst (handle response), snd (handle response)))"

definition print_json :: "'j response \<Rightarrow> 'j run" where
  "print_json response =
     (case json response of
        None \<Rightarrow> ([Json_parse], Some ValueError)
      | Some j \<Rightarrow> ([Json_parse, Print_json j], None))"

definition print_line :: "string \<Rightarrow> 'j run" where
  "print_line s = ([Print_line s], None)"

definition silent :: "'j run" where
  "silent = ([], None)"

subsection \<open>lock.py\<close>

definition LockAction_execute :: "path \<Rightarrow> 'j http \<Rightarrow> string \<Rightarrow> 'j run" where
  "LockAction_execute path http name =
     send http (requests_post (path ''/v1/primitives/locks/{name}'' [(''name'', name)]))
       (\<lambda>response.
          if status_code response = 200 then print_json response
          else print_line ''Failed to acquire lock'')"

definition UnlockAction_execute :: "path \<Rightarrow> 'j http \<Rightarrow> string \<Rightarrow> 'j run" where
  "UnlockAction_execute path http name =
     send http (requests_delete (path ''/v1/primitives/locks/{name}'' [(''name'', name)]))
       (\<lambda>response.
          if status_code response = 200 then print_json response
          else print_line ''Failed to release lock'')"

subsection \<open>election.py\<close>

definition RunAction_execute :: "path \<Rightarrow> 'j http \<Rightarrow> string \<Rightarrow> 'j run" where
  "RunAction_execute path http name =
     send http (requests_post (path ''/v1/primitives/elections/{name}'' [(''name'', name)]))
       (\<lambda>response.
          if status_code response = 200 then print_json response
          else print_line ''Failed to enter election'')"

definition LeaderAction_execute :: "path \<Rightarrow> 'j http \<Rightarrow> string \<Rightarrow> 'j run" where
  "LeaderAction_execute path http name =
     send http (requests_get (path ''/v1/primitives/elections/{name}'' [(''name'', name)]))
       (\<lambda>response.
          if status_code response = 200 then print_json response
          else print_line ''Failed to find leader'')"

definition ListenAction_execute :: "path \<Rightarrow> 'j http \<Rightarrow> string \<Rightarrow> string \<Rightarrow> 'j run" where
  "ListenAction_execute path http name id' =
     send http
       (requests_get
          (path ''/v1/primitives/elections/{name}/{id}'' [(''name'', name), (''id'', id')]))
       (\<lambda>response.
          if status_code response = 200 then print_json response
          else print_line ''Failed to listen for election'')"

definition WithdrawAction_execute :: "path \<Rightarrow> 'j http \<Rightarrow> string \<Rightarrow> string \<Rightarrow> 'j run" where
  "WithdrawAction_execute path http name id' =
     send http
       (requests_delete
          (path ''/v1/primitives/elections/{name}/{id}'' [(''name'', name), (''id'', id')]))
       (\<lambda>response.
          if status_code response \<noteq> 200 then print_line ''Failed to withdraw from election''
          else silent)"

definition AnointAction_execute :: "path \<Rightarrow> 'j http \<Rightarrow> string \<Rightarrow> string \<Rightarrow> 'j run" where
  "AnointAction_execute path http name id' =
     send http
       (requests_post
          (path ''/v1/primitives/elections/{name}/{id}/anoint'' [(''name'', name), (''id'', id')]))
       (\<lambda>response.
          if status_code response \<noteq> 200 then print_line ''Failed to anoint leader''
          else silent)"

definition PromoteAction_execute :: "path \<Rightarrow> 'j http \<Rightarrow> string \<Rightarrow> string \<Rightarrow> 'j run" where
  "PromoteAction_execute path http name id' =
     send http
       (requests_post
          (path ''/v1/primitives/elections/{name}/{id}/promote'' [(''name'', name), (''id'', id')]))
       (\<lambda>response.
          if status_code response \<noteq> 200 then print_line ''Failed to promote candidate''
          else silent)"

definition EvictAction_execute :: "path \<Rightarrow> 'j http \<Rightarrow> string \<Rightarrow> string \<Rightarrow> 'j run" where
  "EvictAction_execute path http name id' =
     send http
       (requests_post
          (path ''/v1/primitives/elections/{name}/{id}/evict'' [(''name'', name), (''id'', id')]))
       (\<lambda>response.
          if status_code response \<noteq> 200 then print_line ''Failed to evict candidate''
          else silent)"

subsection \<open>map.py\<close>

definition GetAction_execute :: "path \<Rightarrow> 'j http \<Rightarrow> string \<Rightarrow> string \<Rightarrow> 'j run" where
  "GetAction_execute path http name key =
     send http
       (requests_get
          (path ''/v1/primitives/maps/{name}/{key}'' [(''name'', name), (''key'', key)]))
       (\<lambda>response.
          if status_code response = 200 then
            (if body_text response \<noteq> [] then print_json response else silent)
          else print_line ''Failed to get from map'')"

text \<open>
  \<open>PutAction\<close> hands \<open>value\<close> to \<^verbatim>\<open>cli.path\<close> as a third keyword argument, beside
  \<open>name\<close> and \<open>key\<close>. \<^verbatim>\<open>requests.put\<close> receives the URL and the headers only, so its
  \<open>data\<close> keeps the default \<open>None\<close>.
\<close>

definition PutAction_execute ::
    "path \<Rightarrow> 'j http \<Rightarrow> string \<Rightarrow> string \<Rightarrow> string \<Rightarrow> 'j run" where
  "PutAction_execute path http name key value =
     send http
       (requests_put
          (path ''/v1/primitives/maps/{name}/{key}''
             [(''name'', name), (''key'', key), (''value'', value)])
          None
          [(''content-type'', ''text/plain'')])
       (\<lambda>response.
          if status_code response = 200 then
            (if body_text response \<noteq> [] then print_json response else silent)
          else print_line ''Failed to put to map'')"

definition RemoveAction_execute :: "path \<Rightarrow> 'j http \<Rightarrow> string \<Rightarrow> string \<Rightarrow> 'j run" where
  "RemoveAction_execute path http name key =
     send http
       (requests_delete
          (path ''/v1/primitives/maps/{name}/{key}'' [(''name'', name), (''key'', key)]))
       (\<lambda>response.
          if status_code response = 200 then
            (if body_text response \<noteq> [] then print_json response else silent)
          else print_line ''Failed to remove key'')"

definition SizeAction_execute :: "path \<Rightarrow> 'j http \<Rightarrow> string \<Rightarrow> 'j run" where
  "SizeAction_execute path http name =
     send http (requests_get (path ''/v1/primitives/maps/{name}/size'' [(''name'', name)]))
       (\<lambda>response.
          if status_code response = 200 then print_json response
          else print_line ''Failed to read map'')"

definition ClearAction_execute :: "path \<Rightarrow> 'j http \<Rightarrow> string \<Rightarrow> 'j run" where
  "ClearAction_execute path http name =
     send http (requests_delete (path ''/v1/primitives/maps/{name}'' [(''name'', name)]))
       (\<lambda>response.
          if status_code response \<noteq> 200 then print_line ''Failed to clear map''
          else silent)"

section \<open>The specification's vocabulary\<close>

text \<open>
  A name \<open>n\<close> matches a prefix \<open>P\<close> when the lowercased name starts with the
  lowercased prefix. The suggestion the specification describes is the first matching
  name of the list without its first \<open>len(P)\<close> characters.
\<close>

definition case_insensitive_prefix :: "string \<Rightarrow> string \<Rightarrow> bool" where
  "case_insensitive_prefix P n = (\<exists>rest. lower n = lower P @ rest)"

definition first_match_suffix :: "string \<Rightarrow> string list \<Rightarrow> string option" where
  "first_match_suffix P L =
     (case find (case_insensitive_prefix P) L of
        None \<Rightarrow> None
      | Some n \<Rightarrow> Some (drop (length P) n))"

text \<open>
  What the specification says of an action's response: on a status other than 200 the
  action sends its request, prints the failure line and does nothing else (no call of
  \<^verbatim>\<open>response.json()\<close>, no exception); on status 200 it does not print the
  failure line.
\<close>

definition reports_failure :: "'j response \<Rightarrow> request \<Rightarrow> string \<Rightarrow> 'j run \<Rightarrow> bool" where
  "reports_failure r req f run =
     (if status_code r = 200 then Print_line f \<notin> set (fst run)
      else run = ([Http req, Print_line f], None))"

text \<open>
  The specification's table gives the failure line of the election operations anoint,
  promote and evict as \<^verbatim>\<open>Failed to {verb}\<close>: the words \<^verbatim>\<open>Failed to\<close> and the
  verb of the operation.
\<close>

definition documented_verb_failure :: "string \<Rightarrow> string" where
  "documented_verb_failure v = ''Failed to '' @ v"

section \<open>Example services\<close>

text \<open>
  The closed examples run the commands against a service that gives the same answer
  to every request, with the template itself as the URL.
\<close>

definition example_path :: path where
  "example_path template kwargs = template"

definition answer :: "'j response \<Rightarrow> 'j http" where
  "answer r req = Inr r"

definition example_names :: "string list http" where
  "example_names =
     answer \<lparr>status_code = 200, body_text = ''[a-lock, b-lock]'',
             json = Some [''a-lock'', ''b-lock'']\<rparr>"

definition example_unavailable :: "'j response" where
  "example_unavailable =
     \<lparr>status_code = 503, body_text = ''Service Unavailable'', json = None\<rparr>"

definition example_empty_ok :: "'j response" where
  "example_empty_ok = \<lparr>status_code = 200, body_text = [], json = None\<rparr>"

definition example_ok :: "string response" where
  "example_ok = \<lparr>status_code = 200, body_text = ''true'', json = Some ''true''\<rparr>"

section \<open>Prefix matching\<close>

lemma startswith_append: "startswith s p = (\<exists>rest. s = p @ rest)"
proof
  assume "startswith s p"
  then have "s = p @ drop (length p) s"
    unfolding startswith_def by (metis append_take_drop_id)
  then show "\<exists>rest. s = p @ rest" ..
next
  assume "\<exists>rest. s = p @ rest"
  then show "startswith s p" by (auto simp: startswith_def)
qed

lemma complete_loop_filter: "complete_loop P L = filter (case_insensitive_prefix P) L"
  by (induction L) (simp_all add: case_insensitive_prefix_def startswith_append)

lemma suggest_loop_first_match: "suggest_loop P L = first_match_suffix P L"
  unfolding first_match_suffix_def
  by (induction L) (simp_all add: case_insensitive_prefix_def startswith_append)

lemma suggest_loop_complete_loop:
  "suggest_loop P L =
     (case complete_loop P L of [] \<Rightarrow> None | n # ns \<Rightarrow> Some (drop (length P) n))"
  by (induction L) simp_all

lemma suggest_from_complete_from:
  assumes "names = Inr L"
  shows "(suggest_from names P = Inr None) = (complete_from names P = Inr [])
     \<and> (\<forall>s. suggest_from names P = Inr (Some s) \<longrightarrow>
          (\<exists>n ns. complete_from names P = Inr (n # ns) \<and> s = drop (length P) n))"
  using assms
  by (auto simp: suggest_from_def complete_from_def suggest_loop_complete_loop
      split: list.splits)

lemma concat_suffix_iff: "(P @ drop (length P) n = n) = (take (length P) n = P)"
proof
  assume "P @ drop (length P) n = n"
  then have "take (length P) n = take (length P) (P @ drop (length P) n)" by simp
  then show "take (length P) n = P" by simp
next
  assume "take (length P) n = P"
  then show "P @ drop (length P) n = n" by (metis append_take_drop_id)
qed

lemma suggest_from_first_match:
  "names = Inr L \<Longrightarrow> find (case_insensitive_prefix P) L = Some n \<Longrightarrow>
     suggest_from names P = Inr (Some (drop (length P) n))"
  by (simp add: suggest_from_def suggest_loop_first_match first_match_suffix_def)

lemma get_names_not_200:
  "http (requests_get u) = Inr r \<Longrightarrow> status_code r \<noteq> 200 \<Longrightarrow> get_names http u = Inr []"
  by (simp add: get_names_def)

lemma example_names_fetched: "get_names example_names u = Inr [''a-lock'', ''b-lock'']"
  by (simp add: get_names_def example_names_def answer_def response_json_def)

lemma lower_examples:
  "lower ''A'' = ''a''" "lower ''a'' = ''a''" "lower ''B'' = ''b''" "lower ''c'' = ''c''"
  "lower ''a-lock'' = ''a-lock''" "lower ''b-lock'' = ''b-lock''"
  by code_simp+

lemmas fetch_defs =
  LockResource_get_lock_names_def ElectionResource_get_election_names_def
  MapResource_get_map_names_def CandidateResource_get_candidates_def
  KeyResource_get_map_keys_def

section \<open>Properties of the resources\<close>

text \<open>
  Claim C1. For every prefix \<open>P\<close> and every list of names \<open>L\<close> fetched from the
  collection endpoint, \<open>complete(P)\<close> yields exactly the elements of \<open>L\<close> whose
  lowercased form starts with the lowercased \<open>P\<close>, in the order of \<open>L\<close>. This holds
  for each of the five resource classes.
\<close>

theorem complete_is_prefix_filter:
  "(LockResource_get_lock_names path http = Inr L \<longrightarrow>
      LockResource_complete path http P = Inr (filter (case_insensitive_prefix P) L))
   \<and> (ElectionResource_get_election_names path http = Inr L \<longrightarrow>
      ElectionResource_complete path http P = Inr (filter (case_insensitive_prefix P) L))
   \<and> (MapResource_get_map_names path http = Inr L \<longrightarrow>
      MapResource_complete path http P = Inr (filter (case_insensitive_prefix P) L))
   \<and> (CandidateResource_get_candidates path http name = Inr L \<longrightarrow>
      CandidateResource_complete path http name P = Inr (filter (case_insensitive_prefix P) L))
   \<and> (KeyResource_get_map_keys path http name = Inr L \<longrightarrow>
      KeyResource_complete path http name P = Inr (filter (case_insensitive_prefix P) L))"
  by (simp add: LockResource_complete_def ElectionResource_complete_def
      MapResource_complete_def CandidateResource_complete_def KeyResource_complete_def
      complete_from_def complete_loop_filter)

theorem complete_is_prefix_filter_witness:
  "LockResource_get_lock_names example_path example_names = Inr [''a-lock'', ''b-lock'']
   \<and> LockResource_complete example_path example_names ''A'' = Inr [''a-lock'']
   \<and> ElectionResource_get_election_names example_path example_names = Inr [''a-lock'', ''b-lock'']
   \<and> ElectionResource_complete example_path example_names ''A'' = Inr [''a-lock'']
   \<and> MapResource_get_map_names example_path example_names = Inr [''a-lock'', ''b-lock'']
   \<and> MapResource_complete example_path example_names ''A'' = Inr [''a-lock'']
   \<and> CandidateResource_get_candidates example_path example_names ''e'' = Inr [''a-lock'', ''b-lock'']
   \<and> CandidateResource_complete example_path example_names ''e'' ''A'' = Inr [''a-lock'']
   \<and> KeyResource_get_map_keys example_path example_names ''e'' = Inr [''a-lock'', ''b-lock'']
   \<and> KeyResource_complete example_path example_names ''e'' ''A'' = Inr [''a-lock'']"
  using complete_is_prefix_filter
          [of example_path example_names "[''a-lock'', ''b-lock'']" "''A''" "''e''"]
  by (simp add: fetch_defs example_names_fetched case_insensitive_prefix_def lower_examples)

text \<open>
  Claim C2. For every prefix \<open>P\<close> and every fetched name list \<open>L\<close>, \<open>suggest(P)\<close>
  returns the first element of \<open>L\<close> that matches \<open>P\<close> as a case-insensitive prefix,
  without its first \<open>len(P)\<close> characters, and none when no element matches. For the
  list of \<open>a-lock\<close> and \<open>b-lock\<close> and the prefix \<open>a\<close> it returns \<open>-lock\<close>.
\<close>

theorem suggest_is_first_match_suffix:
  "(LockResource_get_lock_names path http = Inr L \<longrightarrow>
      LockResource_suggest path http P = Inr (first_match_suffix P L))
   \<and> (ElectionResource_get_election_names path http = Inr L \<longrightarrow>
      ElectionResource_suggest path http P = Inr (first_match_suffix P L))
   \<and> (MapResource_get_map_names path http = Inr L \<longrightarrow>
      MapResource_suggest path http P = Inr (first_match_suffix P L))
   \<and> (CandidateResource_get_candidates path http name = Inr L \<longrightarrow>
      CandidateResource_suggest path http name P = Inr (first_match_suffix P L))
   \<and> (KeyResource_get_map_keys path http name = Inr L \<longrightarrow>
      KeyResource_suggest path http name P = Inr (first_match_suffix P L))
   \<and> (LockResource_get_lock_names path http = Inr [''a-lock'', ''b-lock''] \<longrightarrow>
      LockResource_suggest path http ''a'' = Inr (Some ''-lock''))"
proof -
  have "suggest_loop ''a'' [''a-lock'', ''b-lock''] = Some ''-lock''"
    by (simp add: startswith_def lower_examples)
  then show ?thesis
    by (simp add: LockResource_suggest_def ElectionResource_suggest_def
        MapResource_suggest_def CandidateResource_suggest_def KeyResource_suggest_def
        suggest_from_def suggest_loop_first_match)
qed

theorem suggest_is_first_match_suffix_witness:
  "LockResource_get_lock_names example_path example_names = Inr [''a-lock'', ''b-lock'']
   \<and> LockResource_suggest example_path example_names ''B'' = Inr (Some ''-lock'')
   \<and> ElectionResource_get_election_names example_path example_names = Inr [''a-lock'', ''b-lock'']
   \<and> ElectionResource_suggest example_path example_names ''B'' = Inr (Some ''-lock'')
   \<and> MapResource_get_map_names example_path example_names = Inr [''a-lock'', ''b-lock'']
   \<and> MapResource_suggest example_path example_names ''c'' = Inr None
   \<and> CandidateResource_get_candidates example_path example_names ''e'' = Inr [''a-lock'', ''b-lock'']
   \<and> CandidateResource_suggest example_path example_names ''e'' ''c'' = Inr None
   \<and> KeyResource_get_map_keys example_path example_names ''m'' = Inr [''a-lock'', ''b-lock'']
   \<and> KeyResource_suggest example_path example_names ''m'' ''B'' = Inr (Some ''-lock'')
   \<and> LockResource_suggest example_path example_names ''a'' = Inr (Some ''-lock'')"
  using suggest_is_first_match_suffix
          [of example_path example_names "[''a-lock'', ''b-lock'']" "''B''" "''e''"]
        suggest_is_first_match_suffix
          [of example_path example_names "[''a-lock'', ''b-lock'']" "''c''" "''e''"]
        suggest_is_first_match_suffix
          [of example_path example_names "[''a-lock'', ''b-lock'']" "''B''" "''m''"]
  by (simp add: fetch_defs example_names_fetched case_insensitive_prefix_def
      first_match_suffix_def lower_examples)

text \<open>
  Claim C9. For every prefix \<open>P\<close> and fetched name list \<open>L\<close>, \<open>suggest(P)\<close> is none
  exactly when \<open>complete(P)\<close> yields nothing, and a suggestion that is not none is the
  first name \<open>complete(P)\<close> yields without its first \<open>len(P)\<close> characters.
\<close>

theorem suggest_agrees_with_complete:
  "(LockResource_get_lock_names path http = Inr L \<longrightarrow>
      (LockResource_suggest path http P = Inr None)
        = (LockResource_complete path http P = Inr [])
      \<and> (\<forall>s. LockResource_suggest path http P = Inr (Some s) \<longrightarrow>
           (\<exists>n ns. LockResource_complete path http P = Inr (n # ns)
                    \<and> s = drop (length P) n)))
   \<and> (ElectionResource_get_election_names path http = Inr L \<longrightarrow>
      (ElectionResource_suggest path http P = Inr None)
        = (ElectionResource_complete path http P = Inr [])
      \<and> (\<forall>s. ElectionResource_suggest path http P = Inr (Some s) \<longrightarrow>
           (\<exists>n ns. ElectionResource_complete path http P = Inr (n # ns)
                    \<and> s = drop (length P) n)))
   \<and> (MapResource_get_map_names path http = Inr L \<longrightarrow>
      (MapResource_suggest path http P = Inr None)
        = (MapResource_complete path http P = Inr [])
      \<and> (\<forall>s. MapResource_suggest path http P = Inr (Some s) \<longrightarrow>
           (\<exists>n ns. MapResource_complete path http P = Inr (n # ns)
                    \<and> s = drop (length P) n)))
   \<and> (CandidateResource_get_candidates path http name = Inr L \<longrightarrow>
      (CandidateResource_suggest path http name P = Inr None)
        = (CandidateResource_complete path http name P = Inr [])
      \<and> (\<forall>s. CandidateResource_suggest path http name P = Inr (Some s) \<longrightarrow>
           (\<exists>n ns. CandidateResource_complete path http name P = Inr (n # ns)
                    \<and> s = drop (length P) n)))
   \<and> (KeyResource_get_map_keys path http name = Inr L \<longrightarrow>
      (KeyResource_suggest path http name P = Inr None)
        = (KeyResource_complete path http name P = Inr [])
      \<and> (\<forall>s. KeyResource_suggest path http name P = Inr (Some s) \<longrightarrow>
           (\<exists>n ns. KeyResource_complete path http name P = Inr (n # ns)
                    \<and> s = drop (length P) n)))"
  unfolding LockResource_suggest_def ElectionResource_suggest_def
      MapResource_suggest_def CandidateResource_suggest_def KeyResource_suggest_def
      LockResource_complete_def ElectionResource_complete_def
      MapResource_complete_def CandidateResource_complete_def KeyResource_complete_def
  using suggest_from_complete_from by blast

theorem suggest_agrees_with_complete_witness:
  "LockResource_get_lock_names example_path example_names = Inr [''a-lock'', ''b-lock'']
   \<and> LockResource_suggest example_path example_names ''c'' = Inr None
   \<and> LockResource_complete example_path example_names ''c'' = Inr []
   \<and> LockResource_suggest example_path example_names ''B'' = Inr (Some ''-lock'')
   \<and> LockResource_complete example_path example_names ''B'' = Inr [''b-lock'']
   \<and> ElectionResource_get_election_names example_path example_names = Inr [''a-lock'', ''b-lock'']
   \<and> ElectionResource_suggest example_path example_names ''c'' = Inr None
   \<and> ElectionResource_complete example_path example_names ''c'' = Inr []
   \<and> ElectionResource_suggest example_path example_names ''B'' = Inr (Some ''-lock'')
   \<and> ElectionResource_complete example_path example_names ''B'' = Inr [''b-lock'']
   \<and> MapResource_get_map_names example_path example_names = Inr [''a-lock'', ''b-lock'']
   \<and> MapResource_suggest example_path example_names ''c'' = Inr None
   \<and> MapResource_complete example_path example_names ''c'' = Inr []
   \<and> MapResource_suggest example_path example_names ''B'' = Inr (Some ''-lock'')
   \<and> MapResource_complete example_path example_names ''B'' = Inr [''b-lock'']
   \<and> CandidateResource_get_candidates example_path example_names ''e'' = Inr [''a-lock'', ''b-lock'']
   \<and> CandidateResource_suggest example_path example_names ''e'' ''c'' = Inr None
   \<and> CandidateResource_complete example_path example_names ''e'' ''c'' = Inr []
   \<and> CandidateResource_suggest example_path example_names ''e'' ''B'' = Inr (Some ''-lock'')
   \<and> CandidateResource_complete example_path example_names ''e'' ''B'' = Inr [''b-lock'']
   \<and> KeyResource_get_map_keys example_path example_names ''e'' = Inr [''a-lock'', ''b-lock'']
   \<and> KeyResource_suggest example_path example_names ''e'' ''c'' = Inr None
   \<and> KeyResource_complete example_path example_names ''e'' ''c'' = Inr []
   \<and> KeyResource_suggest example_path example_names ''e'' ''B'' = Inr (Some ''-lock'')
   \<and> KeyResource_complete example_path example_names ''e'' ''B'' = Inr [''b-lock'']"
proof -
  note fetched = fetch_defs example_names_fetched
  note at_c = suggest_agrees_with_complete
                [where path = example_path and http = example_names
                   and L = "[''a-lock'', ''b-lock'']" and P = "''c''" and name = "''e''"]
  note at_B = suggest_agrees_with_complete
                [where path = example_path and http = example_names
                   and L = "[''a-lock'', ''b-lock'']" and P = "''B''" and name = "''e''"]
  have none: "suggest_from (Inr [''a-lock'', ''b-lock'']) ''c'' = Inr None"
    by (simp add: suggest_from_def startswith_def lower_examples)
  have no_match:
    "LockResource_get_lock_names example_path example_names = Inr [''a-lock'', ''b-lock'']
     \<and> LockResource_suggest example_path example_names ''c'' = Inr None
     \<and> LockResource_complete example_path example_names ''c'' = Inr []
     \<and> ElectionResource_get_election_names example_path example_names = Inr [''a-lock'', ''b-lock'']
     \<and> ElectionResource_suggest example_path example_names ''c'' = Inr None
     \<and> ElectionResource_complete example_path example_names ''c'' = Inr []
     \<and> MapResource_get_map_names example_path example_names = Inr [''a-lock'', ''b-lock'']
     \<and> MapResource_suggest example_path example_names ''c'' = Inr None
     \<and> MapResource_complete example_path example_names ''c'' = Inr []
     \<and> CandidateResource_get_candidates example_path example_names ''e'' = Inr [''a-lock'', ''b-lock'']
     \<and> CandidateResource_suggest example_path example_names ''e'' ''c'' = Inr None
     \<and> CandidateResource_complete example_path example_names ''e'' ''c'' = Inr []
     \<and> KeyResource_get_map_keys example_path example_names ''e'' = Inr [''a-lock'', ''b-lock'']
     \<and> KeyResource_suggest example_path example_names ''e'' ''c'' = Inr None
     \<and> KeyResource_complete example_path example_names ''e'' ''c'' = Inr []"
    using at_c none
    by (simp add: fetched LockResource_suggest_def ElectionResource_suggest_def
        MapResource_suggest_def CandidateResource_suggest_def KeyResource_suggest_def)
  have yields: "complete_from (Inr [''a-lock'', ''b-lock'']) ''B'' = Inr [''b-lock'']"
    by (simp add: complete_from_def startswith_def lower_examples)
  have returns: "\<exists>s. suggest_from (Inr [''a-lock'', ''b-lock'']) ''B'' = Inr s"
    by (simp add: suggest_from_def)
  have lock_c: "LockResource_complete example_path example_names ''B'' = Inr [''b-lock'']"
    by (simp add: LockResource_complete_def fetched yields)
  obtain ls where "LockResource_suggest example_path example_names ''B'' = Inr ls"
    using returns by (auto simp: LockResource_suggest_def fetched)
  then have lock_s: "LockResource_suggest example_path example_names ''B'' = Inr (Some ''-lock'')"
    using at_B lock_c by (cases ls) (auto simp: fetched)
  have election_c: "ElectionResource_complete example_path example_names ''B'' = Inr [''b-lock'']"
    by (simp add: ElectionResource_complete_def fetched yields)
  obtain es where "ElectionResource_suggest example_path example_names ''B'' = Inr es"
    using returns by (auto simp: ElectionResource_suggest_def fetched)
  then have election_s:
    "ElectionResource_suggest example_path example_names ''B'' = Inr (Some ''-lock'')"
    using at_B election_c by (cases es) (auto simp: fetched)
  have map_c: "MapResource_complete example_path example_names ''B'' = Inr [''b-lock'']"
    by (simp add: MapResource_complete_def fetched yields)
  obtain ms where "MapResource_suggest example_path example_names ''B'' = Inr ms"
    using returns by (auto simp: MapResource_suggest_def fetched)
  then have map_s: "MapResource_suggest example_path example_names ''B'' = Inr (Some ''-lock'')"
    using at_B map_c by (cases ms) (auto simp: fetched)
  have candidate_c:
    "CandidateResource_complete example_path example_names ''e'' ''B'' = Inr [''b-lock'']"
    by (simp add: CandidateResource_complete_def fetched yields)
  obtain cs where "CandidateResource_suggest example_path example_names ''e'' ''B'' = Inr cs"
    using returns by (auto simp: CandidateResource_suggest_def fetched)
  then have candidate_s:
    "CandidateResource_suggest example_path example_names ''e'' ''B'' = Inr (Some ''-lock'')"
    using at_B candidate_c by (cases cs) (auto simp: fetched)
  have key_c: "KeyResource_complete example_path example_names ''e'' ''B'' = Inr [''b-lock'']"
    by (simp add: KeyResource_complete_def fetched yields)
  obtain ks where "KeyResource_suggest example_path example_names ''e'' ''B'' = Inr ks"
    using returns by (auto simp: KeyResource_suggest_def fetched)
  then have key_s:
    "KeyResource_suggest example_path example_names ''e'' ''B'' = Inr (Some ''-lock'')"
    using at_B key_c by (cases ks) (auto simp: fetched)
  show ?thesis
    using no_match lock_c lock_s election_c election_s map_c map_s
      candidate_c candidate_s key_c key_s
    by simp
qed

text \<open>
  Claim C10. Matching ignores case, but the suggestion is cut from the fetched name as
  it is: for a prefix \<open>P\<close> and the matching name \<open>n\<close> that \<open>suggest\<close> finds, the
  suggestion is \<open>n\<close> without its first \<open>len(P)\<close> characters. So \<open>P\<close> followed by the
  suggestion is \<open>n\<close> only when \<open>P\<close> equals the first \<open>len(P)\<close> characters of \<open>n\<close>,
  and differs from \<open>n\<close> whenever the casing of \<open>P\<close> differs from theirs.
\<close>

theorem suggestion_keeps_original_case:
  "(LockResource_get_lock_names path http = Inr L
      \<and> find (case_insensitive_prefix P) L = Some n \<longrightarrow>
      LockResource_suggest path http P = Inr (Some (drop (length P) n)))
   \<and> (ElectionResource_get_election_names path http = Inr L
      \<and> find (case_insensitive_prefix P) L = Some n \<longrightarrow>
      ElectionResource_suggest path http P = Inr (Some (drop (length P) n)))
   \<and> (MapResource_get_map_names path http = Inr L
      \<and> find (case_insensitive_prefix P) L = Some n \<longrightarrow>
      MapResource_suggest path http P = Inr (Some (drop (length P) n)))
   \<and> (CandidateResource_get_candidates path http name = Inr L
      \<and> find (case_insensitive_prefix P) L = Some n \<longrightarrow>
      CandidateResource_suggest path http name P = Inr (Some (drop (length P) n)))
   \<and> (KeyResource_get_map_keys path http name = Inr L
      \<and> find (case_insensitive_prefix P) L = Some n \<longrightarrow>
      KeyResource_suggest path http name P = Inr (Some (drop (length P) n)))
   \<and> (P @ drop (length P) n = n) = (take (length P) n = P)"
  by (simp add: LockResource_suggest_def ElectionResource_suggest_def
      MapResource_suggest_def CandidateResource_suggest_def KeyResource_suggest_def
      suggest_from_first_match concat_suffix_iff)

theorem suggestion_keeps_original_case_witness:
  "find (case_insensitive_prefix ''A'') [''a-lock'', ''b-lock''] = Some ''a-lock''
   \<and> LockResource_get_lock_names example_path example_names = Inr [''a-lock'', ''b-lock'']
   \<and> LockResource_suggest example_path example_names ''A'' = Inr (Some ''-lock'')
   \<and> ElectionResource_get_election_names example_path example_names = Inr [''a-lock'', ''b-lock'']
   \<and> ElectionResource_suggest example_path example_names ''A'' = Inr (Some ''-lock'')
   \<and> MapResource_get_map_names example_path example_names = Inr [''a-lock'', ''b-lock'']
   \<and> MapResource_suggest example_path example_names ''A'' = Inr (Some ''-lock'')
   \<and> CandidateResource_get_candidates example_path example_names ''e'' = Inr [''a-lock'', ''b-lock'']
   \<and> CandidateResource_suggest example_path example_names ''e'' ''A'' = Inr (Some ''-lock'')
   \<and> KeyResource_get_map_keys example_path example_names ''e'' = Inr [''a-lock'', ''b-lock'']
   \<and> KeyResource_suggest example_path example_names ''e'' ''A'' = Inr (Some ''-lock'')
   \<and> ''A'' @ ''-lock'' \<noteq> ''a-lock''"
  using suggestion_keeps_original_case
          [where path = example_path and http = example_names
             and L = "[''a-lock'', ''b-lock'']" and P = "''A''" and n = "''a-lock''"
             and name = "''e''"]
  by (simp add: fetch_defs example_names_fetched case_insensitive_prefix_def lower_examples)

text \<open>
  Claim C7. When the fetch of a resource's collection endpoint returns a status other
  than 200, the list of names is empty: \<open>suggest\<close> returns none, \<open>complete\<close> yields
  nothing, and neither raises.
\<close>

theorem fetch_failure_is_empty_list:
  "(http (requests_get (path ''/v1/primitives/locks'' [])) = Inr r
       \<and> status_code r \<noteq> 200 \<longrightarrow>
      LockResource_get_lock_names path http = Inr []
      \<and> LockResource_suggest path http P = Inr None
      \<and> LockResource_complete path http P = Inr [])
   \<and> (http (requests_get (path ''/v1/primitives/elections'' [])) = Inr r
       \<and> status_code r \<noteq> 200 \<longrightarrow>
      ElectionResource_get_election_names path http = Inr []
      \<and> ElectionResource_suggest path http P = Inr None
      \<and> ElectionResource_complete path http P = Inr [])
   \<and> (http (requests_get (path ''/v1/primitives/maps'' [])) = Inr r
       \<and> status_code r \<noteq> 200 \<longrightarrow>
      MapResource_get_map_names path http = Inr []
      \<and> MapResource_suggest path http P = Inr None
      \<and> MapResource_complete path http P = Inr [])
   \<and> (http (requests_get (path ''/v1/primitives/elections/{name}'' [(''name'', name)])) = Inr r
       \<and> status_code r \<noteq> 200 \<longrightarrow>
      CandidateResource_get_candidates path http name = Inr []
      \<and> CandidateResource_suggest path http name P = Inr None
      \<and> CandidateResource_complete path http name P = Inr [])
   \<and> (http (requests_get (path ''/v1/primitives/maps/{name}/keys'' [(''name'', name)])) = Inr r
       \<and> status_code r \<noteq> 200 \<longrightarrow>
      KeyResource_get_map_keys path http name = Inr []
      \<and> KeyResource_suggest path http name P = Inr None
      \<and> KeyResource_complete path http name P = Inr [])"
  by (simp add: LockResource_suggest_def ElectionResource_suggest_def
      MapResource_suggest_def CandidateResource_suggest_def KeyResource_suggest_def
      LockResource_complete_def ElectionResource_complete_def
      MapResource_complete_def CandidateResource_complete_def KeyResource_complete_def
      fetch_defs get_names_not_200 suggest_from_def complete_from_def)

theorem fetch_failure_is_empty_list_witness:
  "status_code (example_unavailable :: string list response) \<noteq> 200
   \<and> LockResource_suggest example_path (answer example_unavailable) ''a'' = Inr None
   \<and> LockResource_complete example_path (answer example_unavailable) ''a'' = Inr []
   \<and> ElectionResource_suggest example_path (answer example_unavailable) ''a'' = Inr None
   \<and> ElectionResource_complete example_path (answer example_unavailable) ''a'' = Inr []
   \<and> MapResource_suggest example_path (answer example_unavailable) ''a'' = Inr None
   \<and> MapResource_complete example_path (answer example_unavailable) ''a'' = Inr []
   \<and> CandidateResource_suggest example_path (answer example_unavailable) ''e'' ''a'' = Inr None
   \<and> CandidateResource_complete example_path (answer example_unavailable) ''e'' ''a'' = Inr []
   \<and> KeyResource_suggest example_path (answer example_unavailable) ''e'' ''a'' = Inr None
   \<and> KeyResource_complete example_path (answer example_unavailable) ''e'' ''a'' = Inr []"
  using fetch_failure_is_empty_list
          [where path = example_path and http = "answer example_unavailable"
             and r = example_unavailable and P = "''a''" and name = "''e''"]
  by (simp add: answer_def example_unavailable_def)

section \<open>Properties of the actions\<close>

lemma send_answered:
  "http req = Inr r \<Longrightarrow> send http req handle = (Http req # fst (handle r), snd (handle r))"
  by (simp add: send_def)

lemma print_json_no_line: "Print_line f \<notin> set (fst (print_json r))"
  by (simp add: print_json_def split: option.split)

lemmas action_defs =
  LockAction_execute_def UnlockAction_execute_def RunAction_execute_def
  LeaderAction_execute_def ListenAction_execute_def WithdrawAction_execute_def
  AnointAction_execute_def PromoteAction_execute_def EvictAction_execute_def
  GetAction_execute_def PutAction_execute_def RemoveAction_execute_def
  SizeAction_execute_def ClearAction_execute_def

text \<open>
  Claim C3. For every map name, key and value, the map put operation issues exactly one
  HTTP PUT to \<^verbatim>\<open>/v1/primitives/maps/{name}/{key}\<close> carrying the value as a plain-text
  request body. The code sends exactly one request, a PUT to that template with the
  header \<^verbatim>\<open>content-type: text/plain\<close>, but the request has no body: the value goes
  to \<^verbatim>\<open>cli.path\<close> as a keyword argument and never to \<^verbatim>\<open>requests.put\<close>.
  The second part runs \<^verbatim>\<open>map m put k v\<close> against a service that answers 200.
\<close>

theorem PutAction_sends_no_body:
  "filter is_Http (fst (PutAction_execute path http name key value)) =
     [Http \<lparr>verb = PUT,
            url = path ''/v1/primitives/maps/{name}/{key}''
                    [(''name'', name), (''key'', key), (''value'', value)],
            headers = [(''content-type'', ''text/plain'')],
            data = None\<rparr>]
   \<and> PutAction_execute example_path (answer example_ok) ''m'' ''k'' ''v'' =
       ([Http \<lparr>verb = PUT, url = ''/v1/primitives/maps/{name}/{key}'',
               headers = [(''content-type'', ''text/plain'')], data = None\<rparr>,
         Json_parse, Print_json ''true''], None)"
  by (simp add: PutAction_execute_def send_def requests_put_def print_json_def print_line_def
      silent_def answer_def example_ok_def example_path_def split: sum.split option.split)

text \<open>
  Claim C4, as amended. For every action and every response whose status code is not
  200, the action prints exactly its fixed failure line and does not call
  \<^verbatim>\<open>response.json()\<close>; on status 200 it does not print the failure line, so the
  status code alone decides. The failure line is the documented one, except for the
  election operations anoint, promote and evict, whose lines are
  \<^verbatim>\<open>Failed to anoint leader\<close>, \<^verbatim>\<open>Failed to promote candidate\<close> and
  \<^verbatim>\<open>Failed to evict candidate\<close>.
\<close>

theorem non_200_prints_failure_without_parsing:
  "(let req = requests_post (path ''/v1/primitives/locks/{name}'' [(''name'', name)]) in
      http req = Inr r \<longrightarrow>
      reports_failure r req ''Failed to acquire lock'' (LockAction_execute path http name))
   \<and> (let req = requests_delete (path ''/v1/primitives/locks/{name}'' [(''name'', name)]) in
      http req = Inr r \<longrightarrow>
      reports_failure r req ''Failed to release lock'' (UnlockAction_execute path http name))
   \<and> (let req = requests_post (path ''/v1/primitives/elections/{name}'' [(''name'', name)]) in
      http req = Inr r \<longrightarrow>
      reports_failure r req ''Failed to enter election'' (RunAction_execute path http name))
   \<and> (let req = requests_get (path ''/v1/primitives/elections/{name}'' [(''name'', name)]) in
      http req = Inr r \<longrightarrow>
      reports_failure r req ''Failed to find leader'' (LeaderAction_execute path http name))
   \<and> (let req = requests_get (path ''/v1/primitives/elections/{name}/{id}''
                                [(''name'', name), (''id'', id')]) in
      http req = Inr r \<longrightarrow>
      reports_failure r req ''Failed to listen for election''
        (ListenAction_execute path http name id'))
   \<and> (let req = requests_delete (path ''/v1/primitives/elections/{name}/{id}''
                                   [(''name'', name), (''id'', id')]) in
      http req = Inr r \<longrightarrow>
      reports_failure r req ''Failed to withdraw from election''
        (WithdrawAction_execute path http name id'))
   \<and> (let req = requests_post (path ''/v1/primitives/elections/{name}/{id}/anoint''
                                 [(''name'', name), (''id'', id')]) in
      http req = Inr r \<longrightarrow>
      reports_failure r req ''Failed to anoint leader''
        (AnointAction_execute path http name id'))
   \<and> (let req = requests_post (path ''/v1/primitives/elections/{name}/{id}/promote''
                                 [(''name'', name), (''id'', id')]) in
      http req = Inr r \<longrightarrow>
      reports_failure r req ''Failed to promote candidate''
        (PromoteAction_execute path http name id'))
   \<and> (let req = requests_post (path ''/v1/primitives/elections/{name}/{id}/evict''
                                 [(''name'', name), (''id'', id')]) in
      http req = Inr r \<longrightarrow>
      reports_failure r req ''Failed to evict candidate''
        (EvictAction_execute path http name id'))
   \<and> (let req = requests_get (path ''/v1/primitives/maps/{name}/{key}''
                                [(''name'', name), (''key'', key)]) in
      http req = Inr r \<longrightarrow>
      reports_failure r req ''Failed to get from map'' (GetAction_execute path http name key))
   \<and> (let req = requests_put (path ''/v1/primitives/maps/{name}/{key}''
                                [(''name'', name), (''key'', key), (''value'', value)])
                     None [(''content-type'', ''text/plain'')] in
      http req = Inr r \<longrightarrow>
      reports_failure r req ''Failed to put to map''
        (PutAction_execute path http name key value))
   \<and> (let req = requests_delete (path ''/v1/primitives/maps/{name}/{key}''
                                   [(''name'', name), (''key'', key)]) in
      http req = Inr r \<longrightarrow>
      reports_failure r req ''Failed to remove key'' (RemoveAction_execute path http name key))
   \<and> (let req = requests_get (path ''/v1/primitives/maps/{name}/size'' [(''name'', name)]) in
      http req = Inr r \<longrightarrow>
      reports_failure r req ''Failed to read map'' (SizeAction_execute path http name))
   \<and> (let req = requests_delete (path ''/v1/primitives/maps/{name}'' [(''name'', name)]) in
      http req = Inr r \<longrightarrow>
      reports_failure r req ''Failed to clear map'' (ClearAction_execute path http name))"
  by (simp add: Let_def action_defs send_answered reports_failure_def print_json_no_line
      print_line_def silent_def)

theorem non_200_prints_failure_without_parsing_witness:
  "status_code (example_unavailable :: string response) \<noteq> 200
   \<and> LockAction_execute example_path (answer (example_unavailable :: string response)) ''foo'' =
       ([Http (requests_post ''/v1/primitives/locks/{name}''),
         Print_line ''Failed to acquire lock''], None)
   \<and> UnlockAction_execute example_path (answer (example_unavailable :: string response)) ''foo'' =
       ([Http (requests_delete ''/v1/primitives/locks/{name}''),
         Print_line ''Failed to release lock''], None)
   \<and> RunAction_execute example_path (answer (example_unavailable :: string response)) ''foo'' =
       ([Http (requests_post ''/v1/primitives/elections/{name}''),
         Print_line ''Failed to enter election''], None)
   \<and> LeaderAction_execute example_path (answer (example_unavailable :: string response)) ''foo'' =
       ([Http (requests_get ''/v1/primitives/elections/{name}''),
         Print_line ''Failed to find leader''], None)
   \<and> ListenAction_execute example_path (answer (example_unavailable :: string response))
         ''foo'' ''c'' =
       ([Http (requests_get ''/v1/primitives/elections/{name}/{id}''),
         Print_line ''Failed to listen for election''], None)
   \<and> WithdrawAction_execute example_path (answer (example_unavailable :: string response))
         ''foo'' ''c'' =
       ([Http (requests_delete ''/v1/primitives/elections/{name}/{id}''),
         Print_line ''Failed to withdraw from election''], None)
   \<and> AnointAction_execute example_path (answer (example_unavailable :: string response))
         ''foo'' ''c'' =
       ([Http (requests_post ''/v1/primitives/elections/{name}/{id}/anoint''),
         Print_line ''Failed to anoint leader''], None)
   \<and> PromoteAction_execute example_path (answer (example_unavailable :: string response))
         ''foo'' ''c'' =
       ([Http (requests_post ''/v1/primitives/elections/{name}/{id}/promote''),
         Print_line ''Failed to promote candidate''], None)
   \<and> EvictAction_execute example_path (answer (example_unavailable :: string response))
         ''foo'' ''c'' =
       ([Http (requests_post ''/v1/primitives/elections/{name}/{id}/evict''),
         Print_line ''Failed to evict candidate''], None)
   \<and> GetAction_execute example_path (answer (example_unavailable :: string response))
         ''foo'' ''k'' =
       ([Http (requests_get ''/v1/primitives/maps/{name}/{key}''),
         Print_line ''Failed to get from map''], None)
   \<and> PutAction_execute example_path (answer (example_unavailable :: string response))
         ''foo'' ''k'' ''v'' =
       ([Http (requests_put ''/v1/primitives/maps/{name}/{key}'' None
                 [(''content-type'', ''text/plain'')]),
         Print_line ''Failed to put to map''], None)
   \<and> RemoveAction_execute example_path (answer (example_unavailable :: string response))
         ''foo'' ''k'' =
       ([Http (requests_delete ''/v1/primitives/maps/{name}/{key}''),
         Print_line ''Failed to remove key''], None)
   \<and> SizeAction_execute example_path (answer (example_unavailable :: string response)) ''foo'' =
       ([Http (requests_get ''/v1/primitives/maps/{name}/size''),
         Print_line ''Failed to read map''], None)
   \<and> ClearAction_execute example_path (answer (example_unavailable :: string response)) ''foo'' =
       ([Http (requests_delete ''/v1/primitives/maps/{name}''),
         Print_line ''Failed to clear map''], None)"
  using non_200_prints_failure_without_parsing
          [where path = example_path
             and http = "answer (example_unavailable :: string response)"
             and r = "example_unavailable :: string response"
             and name = "''foo''" and id' = "''c''" and key = "''k''", of "''v''"]
  by (simp add: Let_def answer_def reports_failure_def example_unavailable_def
      example_path_def)

theorem non_200_documented_failure_counterexample:
  "status_code (example_unavailable :: string response) \<noteq> 200
   \<and> stdout (EvictAction_execute example_path
               (answer (example_unavailable :: string response)) ''foo'' ''c'')
       = [Print_line ''Failed to evict candidate'']
   \<and> stdout (EvictAction_execute example_path
               (answer (example_unavailable :: string response)) ''foo'' ''c'')
       \<noteq> [Print_line (documented_verb_failure ''evict'')]"
  by (simp add: EvictAction_execute_def send_def answer_def example_unavailable_def
      print_line_def stdout_def documented_verb_failure_def)

text \<open>
  Claim C5. For the map operations get, put and remove, a response with status 200 and
  the empty string as its body makes the operation print nothing (and the body is not
  decoded, so nothing is raised either).
\<close>

theorem empty_body_prints_nothing:
  "(let req = requests_get (path ''/v1/primitives/maps/{name}/{key}''
                              [(''name'', name), (''key'', key)]) in
      http req = Inr r \<and> status_code r = 200 \<and> body_text r = [] \<longrightarrow>
      stdout (GetAction_execute path http name key) = []
      \<and> snd (GetAction_execute path http name key) = None)
   \<and> (let req = requests_put (path ''/v1/primitives/maps/{name}/{key}''
                                [(''name'', name), (''key'', key), (''value'', value)])
                     None [(''content-type'', ''text/plain'')] in
      http req = Inr r \<and> status_code r = 200 \<and> body_text r = [] \<longrightarrow>
      stdout (PutAction_execute path http name key value) = []
      \<and> snd (PutAction_execute path http name key value) = None)
   \<and> (let req = requests_delete (path ''/v1/primitives/maps/{name}/{key}''
                                   [(''name'', name), (''key'', key)]) in
      http req = Inr r \<and> status_code r = 200 \<and> body_text r = [] \<longrightarrow>
      stdout (RemoveAction_execute path http name key) = []
      \<and> snd (RemoveAction_execute path http name key) = None)"
  by (simp add: Let_def GetAction_execute_def PutAction_execute_def RemoveAction_execute_def
      send_answered silent_def stdout_def)

theorem empty_body_prints_nothing_witness:
  "status_code (example_empty_ok :: string response) = 200
   \<and> body_text (example_empty_ok :: string response) = []
   \<and> stdout (GetAction_execute example_path
               (answer (example_empty_ok :: string response)) ''m'' ''k'') = []
   \<and> stdout (PutAction_execute example_path
               (answer (example_empty_ok :: string response)) ''m'' ''k'' ''v'') = []
   \<and> stdout (RemoveAction_execute example_path
               (answer (example_empty_ok :: string response)) ''m'' ''k'') = []
   \<and> snd (GetAction_execute example_path
            (answer (example_empty_ok :: string response)) ''m'' ''k'') = None"
  using empty_body_prints_nothing
          [where path = example_path and http = "answer (example_empty_ok :: string response)"
             and r = "example_empty_ok :: string response"
             and name = "''m''" and key = "''k''", of "''v''"]
  by (simp add: Let_def answer_def example_empty_ok_def)

text \<open>
  Claim C6, as amended. For the election operations anoint, promote and evict, a
  response with a status other than 200 makes the operation print its failure line:
  \<^verbatim>\<open>Failed to anoint leader\<close>, \<^verbatim>\<open>Failed to promote candidate\<close> and
  \<^verbatim>\<open>Failed to evict candidate\<close>, and nothing else.
\<close>

theorem candidate_operations_failure_lines:
  "(http (requests_post (path ''/v1/primitives/elections/{name}/{id}/anoint''
                           [(''name'', name), (''id'', id')])) = Inr r
      \<and> status_code r \<noteq> 200 \<longrightarrow>
      stdout (AnointAction_execute path http name id') = [Print_line ''Failed to anoint leader''])
   \<and> (http (requests_post (path ''/v1/primitives/elections/{name}/{id}/promote''
                              [(''name'', name), (''id'', id')])) = Inr r
      \<and> status_code r \<noteq> 200 \<longrightarrow>
      stdout (PromoteAction_execute path http name id') =
        [Print_line ''Failed to promote candidate''])
   \<and> (http (requests_post (path ''/v1/primitives/elections/{name}/{id}/evict''
                              [(''name'', name), (''id'', id')])) = Inr r
      \<and> status_code r \<noteq> 200 \<longrightarrow>
      stdout (EvictAction_execute path http name id') =
        [Print_line ''Failed to evict candidate''])"
  by (simp add: AnointAction_execute_def PromoteAction_execute_def EvictAction_execute_def
      send_answered print_line_def stdout_def)

theorem candidate_operations_failure_lines_witness:
  "status_code (example_unavailable :: string response) \<noteq> 200
   \<and> stdout (AnointAction_execute example_path
               (answer (example_unavailable :: string response)) ''e'' ''c'')
       = [Print_line ''Failed to anoint leader'']
   \<and> stdout (PromoteAction_execute example_path
               (answer (example_unavailable :: string response)) ''e'' ''c'')
       = [Print_line ''Failed to promote candidate'']
   \<and> stdout (EvictAction_execute example_path
               (answer (example_unavailable :: string response)) ''e'' ''c'')
       = [Print_line ''Failed to evict candidate'']"
  using candidate_operations_failure_lines
          [where path = example_path
             and http = "answer (example_unavailable :: string response)"
             and r = "example_unavailable :: string response"
             and name = "''e''" and id' = "''c''"]
  by (simp add: answer_def example_unavailable_def)

theorem failed_to_verb_counterexample:
  "status_code (example_unavailable :: string response) \<noteq> 200
   \<and> documented_verb_failure ''anoint'' = ''Failed to anoint''
   \<and> Print_line (documented_verb_failure ''anoint'')
       \<notin> set (stdout (AnointAction_execute example_path
                        (answer (example_unavailable :: string response)) ''e'' ''c''))"
  by (simp add: AnointAction_execute_def send_def answer_def example_unavailable_def
      print_line_def stdout_def documented_verb_failure_def)

text \<open>
  Claim C8. The operations that are silent on success (election withdraw, anoint,
  promote and evict, and map clear) print nothing when the status of the response is
  200; they print their failure line, and only that, when the status is not 200.
\<close>

theorem silent_operations_print_only_on_failure:
  "(http (requests_delete (path ''/v1/primitives/elections/{name}/{id}''
                             [(''name'', name), (''id'', id')])) = Inr r \<longrightarrow>
      stdout (WithdrawAction_execute path http name id') =
        (if status_code r = 200 then [] else [Print_line ''Failed to withdraw from election'']))
   \<and> (http (requests_post (path ''/v1/primitives/elections/{name}/{id}/anoint''
                              [(''name'', name), (''id'', id')])) = Inr r \<longrightarrow>
      stdout (AnointAction_execute path http name id') =
        (if status_code r = 200 then [] else [Print_line ''Failed to anoint leader'']))
   \<and> (http (requests_post (path ''/v1/primitives/elections/{name}/{id}/promote''
                              [(''name'', name), (''id'', id')])) = Inr r \<longrightarrow>
      stdout (PromoteAction_execute path http name id') =
        (if status_code r = 200 then [] else [Print_line ''Failed to promote candidate'']))
   \<and> (http (requests_post (path ''/v1/primitives/elections/{name}/{id}/evict''
                              [(''name'', name), (''id'', id')])) = Inr r \<longrightarrow>
      stdout (EvictAction_execute path http name id') =
        (if status_code r = 200 then [] else [Print_line ''Failed to evict candidate'']))
   \<and> (http (requests_delete (path ''/v1/primitives/maps/{name}'' [(''name'', name)])) = Inr r \<longrightarrow>
      stdout (ClearAction_execute path http name) =
        (if status_code r = 200 then [] else [Print_line ''Failed to clear map'']))"
  by (simp add: WithdrawAction_execute_def AnointAction_execute_def PromoteAction_execute_def
      EvictAction_execute_def ClearAction_execute_def send_answered print_line_def silent_def
      stdout_def)

theorem silent_operations_print_only_on_failure_witness:
  "stdout (WithdrawAction_execute example_path (answer example_ok) ''e'' ''c'') = []
   \<and> stdout (AnointAction_execute example_path (answer example_ok) ''e'' ''c'') = []
   \<and> stdout (PromoteAction_execute example_path (answer example_ok) ''e'' ''c'') = []
   \<and> stdout (EvictAction_execute example_path (answer example_ok) ''e'' ''c'') = []
   \<and> stdout (ClearAction_execute example_path (answer example_ok) ''e'') = []
   \<and> stdout (WithdrawAction_execute example_path
               (answer (example_unavailable :: string response)) ''e'' ''c'')
       = [Print_line ''Failed to withdraw from election'']
   \<and> stdout (ClearAction_execute example_path
               (answer (example_unavailable :: string response)) ''e'')
       = [Print_line ''Failed to clear map'']"
  using silent_operations_print_only_on_failure
          [where path = example_path and http = "answer example_ok" and r = example_ok
             and name = "''e''" and id' = "''c''"]
        silent_operations_print_only_on_failure
          [where path = example_path
             and http = "answer (example_unavailable :: string response)"
             and r = "example_unavailable :: string response"
             and name = "''e''" and id' = "''c''"]
  by (simp add: answer_def example_ok_def example_unavailable_def)

end
